theory Spec2Isabelle
  imports Main "HOL-Library.Word"
begin

section \<open>Common types\<close>

type_synonym u8 = "8 word"
type_synonym u16 = "16 word"
type_synonym u32 = "32 word"

text \<open>
  Handles of the execution engine (\<^verbatim>\<open>wasm_module_t\<close>, \<^verbatim>\<open>wasm_module_inst_t\<close>,
  \<^verbatim>\<open>wasm_exec_env_t\<close>, \<^verbatim>\<open>wasm_function_inst_t\<close>) are opaque pointers. Only their
  comparison with \<^verbatim>\<open>NULL\<close> is observed by the code, so a handle is an address and
  \<^verbatim>\<open>NULL\<close> is address 0.
\<close>

type_synonym handle = nat

definition NULL :: handle where
  "NULL = 0"

section \<open>The module and instance registry (wamr\_integration.c)\<close>

definition MAX_MODULES :: nat where
  "MAX_MODULES = 16"

definition MAX_INSTANCES :: nat where
  "MAX_INSTANCES = 16"

text \<open>\<^verbatim>\<open>module_entry_t\<close>: fields \<^verbatim>\<open>id\<close>, \<^verbatim>\<open>module\<close>, \<^verbatim>\<open>in_use\<close>.\<close>

record module_entry =
  mod_id :: u32
  mod_handle :: handle
  mod_in_use :: bool

text \<open>\<^verbatim>\<open>instance_entry_t\<close>: fields \<^verbatim>\<open>id\<close>, \<^verbatim>\<open>instance\<close>, \<^verbatim>\<open>exec_env\<close>, \<^verbatim>\<open>in_use\<close>.\<close>

record instance_entry =
  inst_id :: u32
  inst_handle :: handle
  inst_exec_env :: handle
  inst_in_use :: bool

text \<open>
  The file's static variables. \<^verbatim>\<open>modules\<close> and \<^verbatim>\<open>instances\<close> are the two static
  arrays, as lists in index order.
\<close>

record wamr_state =
  wamr_initialized :: bool
  modules :: "module_entry list"
  instances :: "instance_entry list"
  next_module_id :: u32
  next_instance_id :: u32

text \<open>An all-zero array element, as static storage and \<^verbatim>\<open>memset(.., 0, ..)\<close> leave it.\<close>

definition zero_module :: module_entry where
  "zero_module = \<lparr>mod_id = 0, mod_handle = NULL, mod_in_use = False\<rparr>"

definition zero_instance :: instance_entry where
  "zero_instance =
     \<lparr>inst_id = 0, inst_handle = NULL, inst_exec_env = NULL, inst_in_use = False\<rparr>"

text \<open>The state at program start, from the static initialisers.\<close>

definition wamr_boot :: wamr_state where
  "wamr_boot =
     \<lparr>wamr_initialized = False,
      modules = replicate MAX_MODULES zero_module,
      instances = replicate MAX_INSTANCES zero_instance,
      next_module_id = 1,
      next_instance_id = 1\<rparr>"

text \<open>
  The calls the file makes into the execution engine, in program order. The engine is an
  external collaborator: what it answers to a call is an argument of the modelled
  function, what the code asks of it is part of the function's result.
\<close>

datatype engine_call =
    Wasm_runtime_full_init
  | Wasm_runtime_load "u8 list" u32
  | Wasm_runtime_instantiate handle u32 u32
  | Wasm_runtime_create_exec_env handle u32
  | Wasm_runtime_deinstantiate handle
  | Wasm_runtime_destroy_exec_env handle
  | Wasm_runtime_lookup_function handle string
  | Wasm_runtime_call_wasm handle handle u32 "u32 list"
  | Wasm_runtime_get_exception handle
  | Wasm_runtime_unload handle
  | Wasm_runtime_destroy

text \<open>
  Every \<^verbatim>\<open>return -1\<close> of the file, named after the \<^verbatim>\<open>LOG_ERR\<close> line before it. The C
  return value of all of them is \<open>-1\<close>.
\<close>

datatype wamr_error =
    Not_Initialized
  | Init_Failed
  | Invalid_Parameters
  | No_Free_Module_Slots
  | Load_Failed
  | Module_Not_Found
  | No_Free_Instance_Slots
  | Instantiate_Failed
  | Exec_Env_Failed
  | Instance_Not_Found
  | Function_Not_Found
  | Call_Failed "string option"

definition rc :: "'e + 'a \<Rightarrow> int" where
  "rc r = (case r of Inl _ \<Rightarrow> -1 | Inr _ \<Rightarrow> 0)"

subsection \<open>wamr\_init\<close>

text \<open>\<open>full_init_ok\<close> is the answer of \<^verbatim>\<open>wasm_runtime_full_init\<close>.\<close>

definition wamr_init ::
  "wamr_state \<Rightarrow> bool \<Rightarrow> engine_call list \<times> (wamr_error + unit) \<times> wamr_state" where
  "wamr_init s full_init_ok =
     (if wamr_initialized s then ([], Inr (), s)
      else if \<not> full_init_ok then ([Wasm_runtime_full_init], Inl Init_Failed, s)
      else ([Wasm_runtime_full_init], Inr (),
            s\<lparr>modules := replicate MAX_MODULES zero_module,
              instances := replicate MAX_INSTANCES zero_instance,
              wamr_initialized := True\<rparr>))"

subsection \<open>wamr\_load\_module\<close>

text \<open>
  The scan \<^verbatim>\<open>for (i = 0; i < MAX_MODULES; i++) if (!modules[i].in_use) { slot = i; break; }\<close>
  over the array from index \<open>i\<close> on; \<open>None\<close> is \<^verbatim>\<open>slot = -1\<close>.
\<close>

fun find_free_module :: "module_entry list \<Rightarrow> nat \<Rightarrow> nat option" where
  "find_free_module [] i = None"
| "find_free_module (m # ms) i =
     (if \<not> mod_in_use m then Some i else find_free_module ms (Suc i))"

text \<open>
  \<open>wasm_bytes\<close> is \<open>None\<close> for a \<^verbatim>\<open>NULL\<close> pointer; \<open>module_id_null\<close> says that the
  out-pointer \<^verbatim>\<open>module_id\<close> is \<^verbatim>\<open>NULL\<close>; \<open>loaded\<close> is the answer of
  \<^verbatim>\<open>wasm_runtime_load\<close>. The value stored through \<^verbatim>\<open>module_id\<close> is the \<open>Inr\<close> result.
\<close>

definition wamr_load_module ::
  "wamr_state \<Rightarrow> u8 list option \<Rightarrow> u32 \<Rightarrow> bool \<Rightarrow> handle \<Rightarrow>
     engine_call list \<times> (wamr_error + u32) \<times> wamr_state" where
  "wamr_load_module s wasm_bytes wasm_size module_id_null loaded =
     (if \<not> wamr_initialized s then ([], Inl Not_Initialized, s)
      else if wasm_bytes = None \<or> wasm_size = 0 \<or> module_id_null
        then ([], Inl Invalid_Parameters, s)
      else case find_free_module (modules s) 0 of
          None \<Rightarrow> ([], Inl No_Free_Module_Slots, s)
        | Some slot \<Rightarrow>
            if loaded = NULL
            then ([Wasm_runtime_load (the wasm_bytes) wasm_size], Inl Load_Failed, s)
            else ([Wasm_runtime_load (the wasm_bytes) wasm_size],
                  Inr (next_module_id s),
                  s\<lparr>modules := (modules s)[slot :=
                       \<lparr>mod_id = next_module_id s, mod_handle = loaded, mod_in_use = True\<rparr>],
                    next_module_id := next_module_id s + 1\<rparr>))"

subsection \<open>wamr\_instantiate\<close>

text \<open>
  The lookup loop: the handle of the first entry in use with the given id, \<^verbatim>\<open>NULL\<close>
  when the loop ends without a match. (\<^verbatim>\<open>module_slot\<close> is written but never read.)
\<close>

fun find_module :: "module_entry list \<Rightarrow> u32 \<Rightarrow> handle" where
  "find_module [] module_id = NULL"
| "find_module (m # ms) module_id =
     (if mod_in_use m \<and> mod_id m = module_id then mod_handle m
      else find_module ms module_id)"

fun find_free_instance :: "instance_entry list \<Rightarrow> nat \<Rightarrow> nat option" where
  "find_free_instance [] i = None"
| "find_free_instance (e # es) i =
     (if \<not> inst_in_use e then Some i else find_free_instance es (Suc i))"

definition default_stack_size :: u32 where
  "default_stack_size = 64 * 1024"

text \<open>
  \<open>instantiated\<close> is the answer of \<^verbatim>\<open>wasm_runtime_instantiate\<close>, \<open>env_created\<close> the
  answer of \<^verbatim>\<open>wasm_runtime_create_exec_env\<close> (asked only when the former is not
  \<^verbatim>\<open>NULL\<close>). The value stored through \<^verbatim>\<open>instance_id\<close> is the \<open>Inr\<close> result.
\<close>

definition wamr_instantiate ::
  "wamr_state \<Rightarrow> u32 \<Rightarrow> handle \<Rightarrow> handle \<Rightarrow>
     engine_call list \<times> (wamr_error + u32) \<times> wamr_state" where
  "wamr_instantiate s module_id instantiated env_created =
     (if \<not> wamr_initialized s then ([], Inl Not_Initialized, s)
      else let m = find_module (modules s) module_id in
        if m = NULL then ([], Inl Module_Not_Found, s)
        else case find_free_instance (instances s) 0 of
            None \<Rightarrow> ([], Inl No_Free_Instance_Slots, s)
          | Some slot \<Rightarrow>
              if instantiated = NULL
              then ([Wasm_runtime_instantiate m default_stack_size 0],
                    Inl Instantiate_Failed, s)
              else if env_created = NULL
              then ([Wasm_runtime_instantiate m default_stack_size 0,
                     Wasm_runtime_create_exec_env instantiated default_stack_size,
                     Wasm_runtime_deinstantiate instantiated],
                    Inl Exec_Env_Failed, s)
              else ([Wasm_runtime_instantiate m default_stack_size 0,
                     Wasm_runtime_create_exec_env instantiated default_stack_size],
                    Inr (next_instance_id s),
                    s\<lparr>instances := (instances s)[slot :=
                         \<lparr>inst_id = next_instance_id s, inst_handle = instantiated,
                          inst_exec_env = env_created, inst_in_use = True\<rparr>],
                      next_instance_id := next_instance_id s + 1\<rparr>))"

subsection \<open>wamr\_call\_function\<close>

text \<open>
  The lookup loop of \<^verbatim>\<open>wamr_call_function\<close>: the pair \<^verbatim>\<open>(instance, exec_env)\<close> of the
  first entry in use with the given id, both \<^verbatim>\<open>NULL\<close> without a match.
\<close>

fun find_instance :: "instance_entry list \<Rightarrow> u32 \<Rightarrow> handle \<times> handle" where
  "find_instance [] instance_id = (NULL, NULL)"
| "find_instance (e # es) instance_id =
     (if inst_in_use e \<and> inst_id e = instance_id then (inst_handle e, inst_exec_env e)
      else find_instance es instance_id)"

text \<open>
  What the engine answers during one call: the function handle found by
  \<^verbatim>\<open>wasm_runtime_lookup_function\<close>, the truth value returned by
  \<^verbatim>\<open>wasm_runtime_call_wasm\<close>, the contents in which that call leaves the \<^verbatim>\<open>argv\<close>
  array it was given (the engine writes a function's return values over its
  arguments), and the answer of \<^verbatim>\<open>wasm_runtime_get_exception\<close>.
\<close>

record call_answers =
  lookup_answer :: handle
  call_answer :: bool
  argv_answer :: "u32 list"
  exception_answer :: "string option"

text \<open>
  What the caller sees after the call: the result, and the contents of the two arrays
  \<^verbatim>\<open>args\<close> and \<^verbatim>\<open>results\<close> it passed by pointer (two arrays that do not overlap).
\<close>

record call_outcome =
  out_calls :: "engine_call list"
  out_result :: "wamr_error + unit"
  out_args :: "u32 list"
  out_results :: "u32 list"
  out_state :: wamr_state

definition wamr_call_function ::
  "wamr_state \<Rightarrow> u32 \<Rightarrow> string \<Rightarrow> u32 list \<Rightarrow> u32 \<Rightarrow> u32 list \<Rightarrow> u32 \<Rightarrow> call_answers \<Rightarrow>
     call_outcome" where
  "wamr_call_function s instance_id function_name args args_count results results_count a =
     (if \<not> wamr_initialized s
      then \<lparr>out_calls = [], out_result = Inl Not_Initialized,
            out_args = args, out_results = results, out_state = s\<rparr>
      else let (instance, exec_env) = find_instance (instances s) instance_id in
        if instance = NULL \<or> exec_env = NULL
        then \<lparr>out_calls = [], out_result = Inl Instance_Not_Found,
              out_args = args, out_results = results, out_state = s\<rparr>
        else if lookup_answer a = NULL
        then \<lparr>out_calls = [Wasm_runtime_lookup_function instance function_name],
              out_result = Inl Function_Not_Found,
              out_args = args, out_results = results, out_state = s\<rparr>
        else if \<not> call_answer a
        then \<lparr>out_calls = [Wasm_runtime_lookup_function instance function_name,
                           Wasm_runtime_call_wasm exec_env (lookup_answer a) args_count args,
                           Wasm_runtime_get_exception instance],
              out_result = Inl (Call_Failed (exception_answer a)),
              out_args = argv_answer a, out_results = results, out_state = s\<rparr>
        else \<lparr>out_calls = [Wasm_runtime_lookup_function instance function_name,
                           Wasm_runtime_call_wasm exec_env (lookup_answer a) args_count args],
              out_result = Inr (),
              out_args = argv_answer a, out_results = results, out_state = s\<rparr>)"

subsection \<open>wamr\_cleanup\<close>

text \<open>Both scans of \<^verbatim>\<open>wamr_cleanup\<close>: the engine calls made (the arrays follow below).\<close>

fun cleanup_instance_calls :: "instance_entry list \<Rightarrow> engine_call list" where
  "cleanup_instance_calls [] = []"
| "cleanup_instance_calls (e # es) =
     (if inst_in_use e
      then (if inst_exec_env e \<noteq> NULL then [Wasm_runtime_destroy_exec_env (inst_exec_env e)]
            else []) @
           (if inst_handle e \<noteq> NULL then [Wasm_runtime_deinstantiate (inst_handle e)]
            else [])
      else []) @ cleanup_instance_calls es"

fun cleanup_module_calls :: "module_entry list \<Rightarrow> engine_call list" where
  "cleanup_module_calls [] = []"
| "cleanup_module_calls (m # ms) =
     (if mod_in_use m
      then (if mod_handle m \<noteq> NULL then [Wasm_runtime_unload (mod_handle m)] else [])
      else []) @ cleanup_module_calls ms"

definition wamr_cleanup :: "wamr_state \<Rightarrow> engine_call list \<times> wamr_state" where
  "wamr_cleanup s =
     (if \<not> wamr_initialized s then ([], s)
      else (cleanup_instance_calls (instances s) @ cleanup_module_calls (modules s) @
              [Wasm_runtime_destroy],
            s\<lparr>instances := map (\<lambda>e. e\<lparr>inst_in_use := False\<rparr>) (instances s),
              modules := map (\<lambda>m. m\<lparr>mod_in_use := False\<rparr>) (modules s),
              wamr_initialized := False\<rparr>))"

subsection \<open>Sequences of registry operations\<close>

text \<open>
  A caller's view of the registry: each operation with its arguments and with the
  answers the engine gives during it, and what the operation returns.
\<close>

datatype wamr_op =
    Op_init bool
  | Op_load "u8 list option" u32 bool handle
  | Op_instantiate u32 handle handle
  | Op_call u32 string "u32 list" u32 "u32 list" u32 call_answers
  | Op_cleanup

datatype wamr_ret =
    Ret_init "wamr_error + unit"
  | Ret_load "wamr_error + u32"
  | Ret_instantiate "wamr_error + u32"
  | Ret_call "wamr_error + unit"
  | Ret_cleanup

fun wamr_step :: "wamr_state \<Rightarrow> wamr_op \<Rightarrow> wamr_ret \<times> wamr_state" where
  "wamr_step s (Op_init ok) = (case wamr_init s ok of (_, r, s') \<Rightarrow> (Ret_init r, s'))"
| "wamr_step s (Op_load b n p l) =
     (case wamr_load_module s b n p l of (_, r, s') \<Rightarrow> (Ret_load r, s'))"
| "wamr_step s (Op_instantiate m i e) =
     (case wamr_instantiate s m i e of (_, r, s') \<Rightarrow> (Ret_instantiate r, s'))"
| "wamr_step s (Op_call i f args ac res rn a) =
     (let out = wamr_call_function s i f args ac res rn a
      in (Ret_call (out_result out), out_state out))"
| "wamr_step s Op_cleanup = (Ret_cleanup, snd (wamr_cleanup s))"

fun wamr_run :: "wamr_state \<Rightarrow> wamr_op list \<Rightarrow> wamr_ret list \<times> wamr_state" where
  "wamr_run s [] = ([], s)"
| "wamr_run s (x # xs) =
     (case wamr_step s x of (r, s') \<Rightarrow>
        (case wamr_run s' xs of (rs, s'') \<Rightarrow> (r # rs, s'')))"

fun is_load :: "wamr_op \<Rightarrow> bool" where
  "is_load (Op_load _ _ _ _) = True"
| "is_load _ = False"

text \<open>The ids handed out by the successful calls of a sequence, in call order.\<close>

fun issued_module_ids :: "wamr_ret list \<Rightarrow> u32 list" where
  "issued_module_ids [] = []"
| "issued_module_ids (Ret_load (Inr i) # rs) = i # issued_module_ids rs"
| "issued_module_ids (_ # rs) = issued_module_ids rs"

fun issued_instance_ids :: "wamr_ret list \<Rightarrow> u32 list" where
  "issued_instance_ids [] = []"
| "issued_instance_ids (Ret_instantiate (Inr i) # rs) = i # issued_instance_ids rs"
| "issued_instance_ids (_ # rs) = issued_instance_ids rs"

text \<open>\<open>n\<close> consecutive values of a 32-bit counter starting at \<open>a\<close>, with its wrap-around.\<close>

fun ids_from :: "u32 \<Rightarrow> nat \<Rightarrow> u32 list" where
  "ids_from a 0 = []"
| "ids_from a (Suc n) = a # ids_from (a + 1) n"

subsection \<open>Example states and sequences\<close>

text \<open>An initialised registry with empty arrays whose module counter stands at \<open>a\<close>.\<close>

definition fresh_registry :: "u32 \<Rightarrow> wamr_state" where
  "fresh_registry a =
     \<lparr>wamr_initialized = True,
      modules = replicate MAX_MODULES zero_module,
      instances = replicate MAX_INSTANCES zero_instance,
      next_module_id = a,
      next_instance_id = 1\<rparr>"

text \<open>Load one module, tear the runtime down, initialise it again.\<close>

definition load_cycle :: "wamr_op list" where
  "load_cycle = [Op_load (Some [0]) 1 False 7, Op_cleanup, Op_init True]"

text \<open>Two deployments with a teardown in between: the second reuses slot 0 of both arrays.\<close>

definition redeploy_trace :: "wamr_op list" where
  "redeploy_trace =
     [Op_init True, Op_load (Some [0]) 1 False 7, Op_instantiate 1 8 9,
      Op_cleanup,
      Op_init True, Op_load (Some [0]) 1 False 7, Op_instantiate 2 8 9]"

section \<open>The transport (network\_handler.c)\<close>

text \<open>
  The value of \<^verbatim>\<open>errno\<close> after a failed socket call. The code only compares it with
  \<^verbatim>\<open>EAGAIN\<close> and \<^verbatim>\<open>EWOULDBLOCK\<close>.
\<close>

datatype errno = EAGAIN | EWOULDBLOCK | Errno_other nat

text \<open>The file's static variables.\<close>

record net_state =
  network_initialized :: bool
  socket_fd :: int
  net_iface :: handle

definition net_boot :: net_state where
  "net_boot = \<lparr>network_initialized = False, socket_fd = -1, net_iface = NULL\<rparr>"

text \<open>
  The calls into the socket layer and the warnings logged, in program order. As with the
  engine, what the socket layer answers is an argument of the modelled function.
\<close>

datatype net_event =
    Zsock_close int
  | Zsock_socket
  | Zsock_setsockopt_tls_hostname int string
  | Net_addr_pton string
  | Zsock_connect int u16
  | Zsock_send int "u8 list" u32
  | Zsock_recv int u32
  | Warn_tls_hostname
  | Warn_partial_send int u32
  | Warn_interface_down

datatype net_error =
    Net_Not_Initialized
  | No_Network_Interface
  | Socket_Create_Failed
  | Invalid_IP_Address
  | Connect_Failed
  | Socket_Not_Connected
  | Send_Failed
  | Recv_Failed

subsection \<open>network\_init and network\_process\<close>

text \<open>
  The polling loop of \<^verbatim>\<open>network_init\<close>: up to \<open>retries\<close> calls of
  \<^verbatim>\<open>net_if_get_default\<close>, the \<open>k\<close>-th of which answers \<open>iface_at k\<close>; the result is the
  value of \<^verbatim>\<open>net_iface\<close> when the loop is left. Bringing the interface up, starting
  DHCP and the sleeps change none of the file's variables and are left out.
\<close>

fun poll_iface :: "(nat \<Rightarrow> handle) \<Rightarrow> nat \<Rightarrow> nat \<Rightarrow> handle \<Rightarrow> handle" where
  "poll_iface iface_at k 0 cur = cur"
| "poll_iface iface_at k (Suc retries) cur =
     (if iface_at k \<noteq> NULL then iface_at k
      else poll_iface iface_at (Suc k) retries (iface_at k))"

definition network_init ::
  "net_state \<Rightarrow> (nat \<Rightarrow> handle) \<Rightarrow> (net_error + unit) \<times> net_state" where
  "network_init s iface_at =
     (if network_initialized s then (Inr (), s)
      else let iface = poll_iface iface_at 0 10 (net_iface s) in
        if iface = NULL then (Inl No_Network_Interface, s\<lparr>net_iface := iface\<rparr>)
        else (Inr (), s\<lparr>net_iface := iface, network_initialized := True\<rparr>))"

text \<open>\<open>iface_up\<close> is the answer of \<^verbatim>\<open>net_if_is_up\<close>.\<close>

definition network_process :: "net_state \<Rightarrow> bool \<Rightarrow> net_event list" where
  "network_process s iface_up =
     (if \<not> network_initialized s then []
      else if net_iface s \<noteq> NULL \<and> \<not> iface_up then [Warn_interface_down]
      else [])"

subsection \<open>network\_connect\_tls\<close>

text \<open>
  The return values of \<^verbatim>\<open>zsock_socket\<close>, \<^verbatim>\<open>zsock_setsockopt\<close>, \<^verbatim>\<open>net_addr_pton\<close> and
  \<^verbatim>\<open>zsock_connect\<close> (during which the TLS handshake happens).
\<close>

record connect_answers =
  socket_answer :: int
  setsockopt_answer :: int
  pton_answer :: int
  connect_answer :: int

definition network_connect_tls ::
  "net_state \<Rightarrow> string \<Rightarrow> u16 \<Rightarrow> connect_answers \<Rightarrow>
     net_event list \<times> (net_error + unit) \<times> net_state" where
  "network_connect_tls s host port a =
     (if \<not> network_initialized s then ([], Inl Net_Not_Initialized, s)
      else let closing = (if socket_fd s \<ge> 0 then [Zsock_close (socket_fd s)] else []);
               fd = socket_answer a in
        if fd < 0
        then (closing @ [Zsock_socket], Inl Socket_Create_Failed, s\<lparr>socket_fd := fd\<rparr>)
        else let setup = closing @ [Zsock_socket, Zsock_setsockopt_tls_hostname fd host] @
                   (if setsockopt_answer a < 0 then [Warn_tls_hostname] else []) @
                   [Net_addr_pton host] in
          if pton_answer a < 0
          then (setup @ [Zsock_close fd], Inl Invalid_IP_Address, s\<lparr>socket_fd := -1\<rparr>)
          else if connect_answer a < 0
          then (setup @ [Zsock_connect fd port, Zsock_close fd], Inl Connect_Failed,
                s\<lparr>socket_fd := -1\<rparr>)
          else (setup @ [Zsock_connect fd port], Inr (), s\<lparr>socket_fd := fd\<rparr>))"

subsection \<open>network\_send\<close>

text \<open>
  \<open>sent\<close> is the return value of the one call of \<^verbatim>\<open>zsock_send\<close>, an \<^verbatim>\<open>ssize_t\<close>. The
  cast \<^verbatim>\<open>(ssize_t)data_len\<close> is taken at the 32 bits of the firmware's targets; it only
  decides whether the warning is logged.
\<close>

definition network_send ::
  "net_state \<Rightarrow> u8 list \<Rightarrow> u32 \<Rightarrow> int \<Rightarrow> net_event list \<times> (net_error + unit) \<times> net_state"
  where
  "network_send s data data_len sent =
     (if socket_fd s < 0 then ([], Inl Socket_Not_Connected, s)
      else if sent < 0
        then ([Zsock_send (socket_fd s) data data_len], Inl Send_Failed, s)
      else (Zsock_send (socket_fd s) data data_len #
              (if sent \<noteq> sint data_len then [Warn_partial_send sent data_len] else []),
            Inr (), s))"

subsection \<open>network\_receive\<close>

text \<open>
  \<open>received\<close> is the return value of \<^verbatim>\<open>zsock_recv\<close>, \<open>err\<close> the value of \<^verbatim>\<open>errno\<close> after
  it. The \<open>Inr\<close> result is the value stored through \<^verbatim>\<open>received_len\<close>; on an error
  return nothing is stored there.
\<close>

definition network_receive ::
  "net_state \<Rightarrow> u32 \<Rightarrow> int \<Rightarrow> errno \<Rightarrow> net_event list \<times> (net_error + u32) \<times> net_state"
  where
  "network_receive s buffer_len received err =
     (if socket_fd s < 0 then ([], Inl Socket_Not_Connected, s)
      else if received < 0
        then (if err = EAGAIN \<or> err = EWOULDBLOCK
              then ([Zsock_recv (socket_fd s) buffer_len], Inr 0, s)
              else ([Zsock_recv (socket_fd s) buffer_len], Inl Recv_Failed, s))
      else ([Zsock_recv (socket_fd s) buffer_len], Inr (word_of_int received), s))"

subsection \<open>The socket layer's side of a read\<close>

text \<open>
  What the connection holds for the reader when \<^verbatim>\<open>zsock_recv\<close> is called: nothing,
  some bytes (at least one), the peer's orderly close, or a failure of the connection
  with its error number (one other than \<^verbatim>\<open>EAGAIN\<close> and \<^verbatim>\<open>EWOULDBLOCK\<close>, which stand for
  nothing pending).
\<close>

datatype socket_condition =
    Nothing_Pending
  | Bytes_Pending "u8 list"
  | Peer_Closed
  | Connection_Failure nat

text \<open>A call of \<^verbatim>\<open>zsock_recv\<close> returns a value and leaves an \<^verbatim>\<open>errno\<close>, or does not return.\<close>

datatype recv_outcome = Recv_Returns int errno | Recv_Blocks

text \<open>
  \<^verbatim>\<open>zsock_recv\<close> on a stream socket, which is not part of the sources, as POSIX
  specifies \<^verbatim>\<open>recv\<close>: with nothing to read, a socket in non-blocking mode (or a call
  with \<^verbatim>\<open>MSG_DONTWAIT\<close>) fails with \<^verbatim>\<open>EAGAIN\<close> or \<^verbatim>\<open>EWOULDBLOCK\<close>, and a socket in
  blocking mode waits, so that the call does not return while nothing arrives; with bytes
  to read the call returns how many it stored, at most \<open>buffer_len\<close>; after the peer's
  orderly close it returns 0. (\<^verbatim>\<open>errno\<close> after a successful call is of no account; it
  is given as \<open>Errno_other 0\<close>.)
\<close>

definition zsock_recv :: "bool \<Rightarrow> socket_condition \<Rightarrow> u32 \<Rightarrow> recv_outcome" where
  "zsock_recv nonblocking c buffer_len =
     (case c of
        Nothing_Pending \<Rightarrow> if nonblocking then Recv_Returns (-1) EAGAIN else Recv_Blocks
      | Bytes_Pending bs \<Rightarrow>
          if bs = [] then (if nonblocking then Recv_Returns (-1) EAGAIN else Recv_Blocks)
          else Recv_Returns (int (min (length bs) (unat buffer_len))) (Errno_other 0)
      | Peer_Closed \<Rightarrow> Recv_Returns 0 (Errno_other 0)
      | Connection_Failure e \<Rightarrow> Recv_Returns (-1) (Errno_other e))"

text \<open>
  A call of \<^verbatim>\<open>network_receive\<close> against the socket layer; \<open>None\<close> when the call does
  not return. The socket is the one \<^verbatim>\<open>network_connect_tls\<close> has opened: it comes from
  \<^verbatim>\<open>zsock_socket\<close> in blocking mode, nothing in the file sets \<^verbatim>\<open>O_NONBLOCK\<close> or a
  receive timeout on it (the only option set is the TLS host name), and
  \<^verbatim>\<open>network_receive\<close> passes 0 for the flags. Hence \<open>False\<close> for the mode.
\<close>

definition network_receive_call ::
  "net_state \<Rightarrow> u32 \<Rightarrow> socket_condition \<Rightarrow>
     (net_event list \<times> (net_error + u32) \<times> net_state) option" where
  "network_receive_call s buffer_len c =
     (if socket_fd s < 0 then Some ([], Inl Socket_Not_Connected, s)
      else case zsock_recv False c buffer_len of
          Recv_Blocks \<Rightarrow> None
        | Recv_Returns received err \<Rightarrow> Some (network_receive s buffer_len received err))"

section \<open>The protocol handler (wasmbed\_protocol.c)\<close>

text \<open>A C string: the characters of a buffer before its first \<^verbatim>\<open>NUL\<close>.\<close>

definition c_string :: "string \<Rightarrow> string" where
  "c_string buf = takeWhile (\<lambda>c. c \<noteq> CHR 0x00) buf"

subsection \<open>atoi\<close>

text \<open>
  \<^verbatim>\<open>atoi\<close> belongs to the C library, which is not part of the sources. ISO C fixes
  what it returns as long as the value fits an \<^verbatim>\<open>int\<close>: skip white space, read an
  optional sign, then the longest run of decimal digits; without a digit the value is 0.
  Beyond the range of \<^verbatim>\<open>int\<close> ISO C leaves the result open and libraries differ, so
  \<^verbatim>\<open>parse_endpoint\<close> below takes the library's function as an argument. The function
  \<open>atoi\<close> defined here is one such library function: it is total, agrees with ISO C
  within the range of \<^verbatim>\<open>int\<close>, and beyond it wraps around modulo \<open>2^32\<close>, as an
  accumulation of the digits in a 32-bit \<^verbatim>\<open>int\<close> does.
\<close>

definition isspace :: "char \<Rightarrow> bool" where
  "isspace c = (c = CHR '' '' \<or> c = CHR 0x09 \<or> c = CHR 0x0A \<or> c = CHR 0x0B \<or>
                c = CHR 0x0C \<or> c = CHR 0x0D)"

definition isdigit :: "char \<Rightarrow> bool" where
  "isdigit c = (48 \<le> (of_char c :: nat) \<and> (of_char c :: nat) \<le> 57)"

definition digit_value :: "char \<Rightarrow> nat" where
  "digit_value c = of_char c - 48"

fun read_digits :: "string \<Rightarrow> nat \<Rightarrow> nat" where
  "read_digits [] acc = acc"
| "read_digits (c # cs) acc =
     (if isdigit c then read_digits cs (10 * acc + digit_value c) else acc)"


definition atoi :: "string \<Rightarrow> int" where
  "atoi s =
     (let t = dropWhile isspace s;
          v = (case t of
                 [] \<Rightarrow> 0
               | c # cs \<Rightarrow>
                   if c = CHR ''-'' then - int (read_digits cs 0)
                   else if c = CHR ''+'' then int (read_digits cs 0)
                   else int (read_digits t 0))
      in sint (word_of_int v :: u32))"

subsection \<open>parse\_endpoint\<close>

text \<open>\<^verbatim>\<open>strchr\<close>: the index of the first occurrence, \<open>None\<close> for \<^verbatim>\<open>NULL\<close>.\<close>

fun strchr :: "string \<Rightarrow> char \<Rightarrow> nat option" where
  "strchr [] c = None"
| "strchr (x # xs) c = (if x = c then Some 0 else map_option Suc (strchr xs c))"

datatype parse_error = Null_Argument | Missing_Port | Host_Too_Long | Invalid_Port

text \<open>
  \<open>lib_atoi\<close> is the C library's \<^verbatim>\<open>atoi\<close>. \<open>endpoint\<close> is \<open>None\<close> for a \<^verbatim>\<open>NULL\<close>
  pointer and otherwise the buffer pointed to, read as a C string. The two
  out-parameters \<^verbatim>\<open>host\<close> (a buffer of \<open>host_len\<close> bytes) and \<^verbatim>\<open>port\<close> are the \<open>Inr\<close>
  result; the one caller passes the addresses of two local variables for them, so their
  \<^verbatim>\<open>NULL\<close> test is not a branch of the model. The cast \<^verbatim>\<open>(uint16_t)\<close> keeps the low 16
  bits of the \<^verbatim>\<open>int\<close>.
\<close>

definition parse_endpoint ::
  "(string \<Rightarrow> int) \<Rightarrow> string option \<Rightarrow> nat \<Rightarrow> parse_error + string \<times> u16" where
  "parse_endpoint lib_atoi endpoint host_len =
     (case endpoint of
        None \<Rightarrow> Inl Null_Argument
      | Some buf \<Rightarrow>
          let e = c_string buf in
          case strchr e CHR '':'' of
            None \<Rightarrow> Inl Missing_Port
          | Some host_len_actual \<Rightarrow>
              if host_len_actual \<ge> host_len then Inl Host_Too_Long
              else let port = (word_of_int (lib_atoi (drop (Suc host_len_actual) e)) :: u16) in
                if port = 0 then Inl Invalid_Port
                else Inr (take host_len_actual e, port))"



subsection \<open>The whole system's state\<close>

text \<open>The static variables of the protocol handler.\<close>

record protocol_state =
  protocol_initialized :: bool
  gateway_endpoint :: string
  gateway_connected :: bool

record sys_state =
  net :: net_state
  wamr :: wamr_state
  protocol :: protocol_state

definition sys_boot :: sys_state where
  "sys_boot =
     \<lparr>net = net_boot, wamr = wamr_boot,
      protocol = \<lparr>protocol_initialized = False, gateway_endpoint = [],
                  gateway_connected = False\<rparr>\<rparr>"

subsection \<open>read\_gateway\_endpoint and wasmbed\_protocol\_init\<close>

text \<open>
  \<open>mem_length\<close> is the 32-bit word at the fixed address, \<open>mem_at k\<close> the \<open>k\<close>-th
  character after it. The result is the C string left in \<^verbatim>\<open>gateway_endpoint\<close>.
\<close>

definition read_gateway_endpoint :: "u32 \<Rightarrow> (nat \<Rightarrow> char) \<Rightarrow> string option" where
  "read_gateway_endpoint mem_length mem_at =
     (if mem_length = 0 \<or> unat mem_length \<ge> 64 then None
      else Some (c_string (map mem_at [0..<unat mem_length])))"

definition default_endpoint :: string where
  "default_endpoint = ''127.0.0.1:40029''"

text \<open>
  \<^verbatim>\<open>wasmbed_protocol_init\<close> always returns 0. A failed parse or a failed connect is
  logged (\<^verbatim>\<open>"... will retry later"\<close>) and initialisation goes on.
\<close>

definition wasmbed_protocol_init ::
  "(string \<Rightarrow> int) \<Rightarrow> sys_state \<Rightarrow> u32 \<Rightarrow> (nat \<Rightarrow> char) \<Rightarrow> connect_answers \<Rightarrow>
     net_event list \<times> sys_state" where
  "wasmbed_protocol_init lib_atoi s mem_length mem_at a =
     (if protocol_initialized (protocol s) then ([], s)
      else let endpoint = (case read_gateway_endpoint mem_length mem_at of
                             None \<Rightarrow> default_endpoint
                           | Some e \<Rightarrow> e);
               p = (protocol s)\<lparr>gateway_endpoint := endpoint\<rparr> in
        case parse_endpoint lib_atoi (Some endpoint) 64 of
          Inl _ \<Rightarrow> ([], s\<lparr>protocol := p\<lparr>protocol_initialized := True\<rparr>\<rparr>)
        | Inr (host, port) \<Rightarrow>
            (case network_connect_tls (net s) host port a of
               (evs, Inr _, n) \<Rightarrow>
                 (evs, s\<lparr>net := n,
                        protocol := p\<lparr>gateway_connected := True,
                                     protocol_initialized := True\<rparr>\<rparr>)
             | (evs, Inl _, n) \<Rightarrow>
                 (evs, s\<lparr>net := n, protocol := p\<lparr>protocol_initialized := True\<rparr>\<rparr>)))"

subsection \<open>wasmbed\_protocol\_handle\_message\<close>

text \<open>
  The handler logs the first 32 bytes of the message and returns 0; decoding is a
  \<^verbatim>\<open>TODO\<close> in the source. \<open>data\<close> is \<open>None\<close> for a \<^verbatim>\<open>NULL\<close> pointer and otherwise
  a buffer of at least \<open>data_len\<close> bytes. The result is the bytes logged, the C return
  value and the state of the whole system.
\<close>

definition wasmbed_protocol_handle_message ::
  "sys_state \<Rightarrow> u8 list option \<Rightarrow> u32 \<Rightarrow> u8 list \<times> int \<times> sys_state" where
  "wasmbed_protocol_handle_message s data data_len =
     (if \<not> protocol_initialized (protocol s) then ([], -1, s)
      else if data = None \<or> data_len = 0 then ([], -1, s)
      else (take (min (unat data_len) 32) (the data), 0, s))"

text \<open>
  The spec's frame: a 4-byte big-endian length before the rest, and a maximum message
  size. Neither occurs in the source; the size is that of the receive buffer of
  \<^verbatim>\<open>main\<close>, which the spec gives as its example.
\<close>

definition spec_declared_length :: "u8 list \<Rightarrow> nat" where
  "spec_declared_length frame =
     (case frame of
        b0 # b1 # b2 # b3 # _ \<Rightarrow>
          unat b0 * 16777216 + unat b1 * 65536 + unat b2 * 256 + unat b3
      | _ \<Rightarrow> 0)"

definition spec_max_message_size :: nat where
  "spec_max_message_size = 4096"

subsection \<open>wasmbed\_protocol\_send\_message\<close>

definition wasmbed_protocol_send_message ::
  "sys_state \<Rightarrow> u8 list option \<Rightarrow> u32 \<Rightarrow> int \<Rightarrow> net_event list \<times> int \<times> sys_state" where
  "wasmbed_protocol_send_message s data data_len sent =
     (if \<not> protocol_initialized (protocol s) then ([], -1, s)
      else if \<not> gateway_connected (protocol s) then ([], -1, s)
      else if data = None \<or> data_len = 0 then ([], -1, s)
      else case network_send (net s) (the data) data_len sent of
          (evs, Inl _, n) \<Rightarrow> (evs, -1, s\<lparr>net := n\<rparr>)
        | (evs, Inr _, n) \<Rightarrow> (evs, 0, s\<lparr>net := n\<rparr>))"

section \<open>The control loop (main.c)\<close>

text \<open>
  What the environment answers during one pass of the loop: whether the interface is
  up, the return value of \<^verbatim>\<open>zsock_recv\<close> with \<^verbatim>\<open>errno\<close>, and the bytes it left in
  \<^verbatim>\<open>recv_buffer\<close>.
\<close>

record tick_answers =
  iface_up_answer :: bool
  recv_answer :: int
  errno_answer :: errno
  recv_data :: "u8 list"

text \<open>
  One pass of \<^verbatim>\<open>while (1)\<close>: \<^verbatim>\<open>network_process\<close>, \<^verbatim>\<open>network_receive\<close> into the
  4096-byte buffer, \<^verbatim>\<open>wasmbed_protocol_handle_message\<close> when that returned 0 with a
  positive length, \<^verbatim>\<open>wamr_process\<close> (which does nothing), and the sleep.
\<close>

definition main_loop_pass :: "sys_state \<Rightarrow> tick_answers \<Rightarrow> net_event list \<times> sys_state" where
  "main_loop_pass s t =
     (let evs0 = network_process (net s) (iface_up_answer t) in
      case network_receive (net s) 4096 (recv_answer t) (errno_answer t) of
        (evs, Inl _, n) \<Rightarrow> (evs0 @ evs, s\<lparr>net := n\<rparr>)
      | (evs, Inr received_len, n) \<Rightarrow>
          if received_len > 0
          then (evs0 @ evs,
                snd (snd (wasmbed_protocol_handle_message (s\<lparr>net := n\<rparr>)
                            (Some (recv_data t)) received_len)))
          else (evs0 @ evs, s\<lparr>net := n\<rparr>))"

fun main_loop :: "sys_state \<Rightarrow> tick_answers list \<Rightarrow> net_event list \<times> sys_state" where
  "main_loop s [] = ([], s)"
| "main_loop s (t # ts) =
     (case main_loop_pass s t of (evs, s') \<Rightarrow>
        (case main_loop s' ts of (evs', s'') \<Rightarrow> (evs @ evs', s'')))"

text \<open>
  The start of \<^verbatim>\<open>main\<close> up to the loop: \<^verbatim>\<open>network_init\<close> (a failure is logged and
  ignored), \<^verbatim>\<open>wamr_init\<close> (a failure ends \<^verbatim>\<open>main\<close>), \<^verbatim>\<open>wasmbed_protocol_init\<close>.
\<close>

datatype startup = Main_Returned | Loop_Entered "net_event list" sys_state

definition main_startup ::
  "(string \<Rightarrow> int) \<Rightarrow> sys_state \<Rightarrow> (nat \<Rightarrow> handle) \<Rightarrow> bool \<Rightarrow> u32 \<Rightarrow> (nat \<Rightarrow> char) \<Rightarrow>
     connect_answers \<Rightarrow> startup" where
  "main_startup lib_atoi s iface_at full_init_ok mem_length mem_at a =
     (let s1 = s\<lparr>net := snd (network_init (net s) iface_at)\<rparr> in
      case wamr_init (wamr s1) full_init_ok of
        (_, Inl _, _) \<Rightarrow> Main_Returned
      | (_, Inr _, w) \<Rightarrow>
          (case wasmbed_protocol_init lib_atoi (s1\<lparr>wamr := w\<rparr>) mem_length mem_at a of
             (evs, s2) \<Rightarrow> Loop_Entered evs s2))"

text \<open>The state in which the loop is entered (the given state when it is not).\<close>

fun loop_state :: "sys_state \<Rightarrow> startup \<Rightarrow> sys_state" where
  "loop_state s (Loop_Entered evs s') = s'"
| "loop_state s _ = s"

subsection \<open>Example inputs\<close>

text \<open>
  A start-up in which the interface is there, no endpoint has been provisioned (so the
  default one is used) and the gateway refuses, respectively accepts, the connection.
\<close>

definition refused :: connect_answers where
  "refused = \<lparr>socket_answer = 3, setsockopt_answer = 0, pton_answer = 0,
              connect_answer = -1\<rparr>"

definition accepted :: connect_answers where
  "accepted = \<lparr>socket_answer = 3, setsockopt_answer = 0, pton_answer = 0,
               connect_answer = 0\<rparr>"

definition idle_tick :: tick_answers where
  "idle_tick = \<lparr>iface_up_answer = True, recv_answer = -1, errno_answer = EAGAIN,
                recv_data = []\<rparr>"

definition after_failed_connect :: sys_state where
  "after_failed_connect =
     loop_state sys_boot (main_startup atoi sys_boot (\<lambda>k. 5) True 0 (\<lambda>k. CHR 0x00) refused)"

text \<open>A registry holding one module and one instance, as three calls from start leave it.\<close>

definition deployed_registry :: wamr_state where
  "deployed_registry =
     snd (wamr_run wamr_boot
            [Op_init True, Op_load (Some [0]) 1 False 7, Op_instantiate 1 8 9])"

text \<open>A system connected to its gateway, with that registry.\<close>

definition deployed :: sys_state where
  "deployed =
     (loop_state sys_boot (main_startup atoi sys_boot (\<lambda>k. 5) True 0 (\<lambda>k. CHR 0x00) accepted))
       \<lparr>wamr := deployed_registry\<rparr>"

definition oversized_frame :: "u8 list" where
  "oversized_frame = [255, 255, 255, 255, 1]"

text \<open>A transport with an open socket.\<close>

definition connected_net :: net_state where
  "connected_net = \<lparr>network_initialized = True, socket_fd = 3, net_iface = 5\<rparr>"

text \<open>
  The engine's answers to \<^verbatim>\<open>add(5, 3)\<close>: the function exists, the call succeeds and
  leaves the sum in \<^verbatim>\<open>argv[0]\<close>.
\<close>

definition add_answers :: call_answers where
  "add_answers = \<lparr>lookup_answer = 4, call_answer = True, argv_answer = [8, 3],
                  exception_answer = None\<rparr>"

fun is_send :: "net_event \<Rightarrow> bool" where
  "is_send (Zsock_send _ _ _) = True"
| "is_send _ = False"

section \<open>Properties of the registry\<close>

subsection \<open>Auxiliary facts\<close>

lemma find_free_module_None: "find_free_module ms i = None \<longleftrightarrow> list_all mod_in_use ms"
  by (induction ms arbitrary: i) auto

lemma find_free_module_Some:
  "find_free_module ms i = Some k \<Longrightarrow>
     i \<le> k \<and> k - i < length ms \<and> \<not> mod_in_use (ms ! (k - i))"
proof (induction ms arbitrary: i)
  case Nil
  then show ?case by simp
next
  case (Cons m ms)
  show ?case
  proof (cases "mod_in_use m")
    case False
    with Cons.prems show ?thesis by simp
  next
    case True
    with Cons.prems have "find_free_module ms (Suc i) = Some k" by simp
    from Cons.IH [OF this] show ?thesis
      by (auto simp: Suc_diff_le nth_Cons')
  qed
qed

lemma filter_update_count:
  assumes "k < length xs" "\<not> P (xs ! k)" "P e"
  shows "length (filter P (xs[k := e])) = Suc (length (filter P xs))"
proof -
  have a: "xs = take k xs @ xs ! k # drop (Suc k) xs"
    using assms(1) by (simp add: id_take_nth_drop)
  have b: "xs[k := e] = take k xs @ e # drop (Suc k) xs"
    using assms(1) by (simp add: upd_conv_take_nth_drop)
  have "length (filter P xs) = length (filter P (take k xs)) + length (filter P (drop (Suc k) xs))"
    by (subst a) (simp add: assms(2))
  moreover have "length (filter P (xs[k := e])) =
      Suc (length (filter P (take k xs)) + length (filter P (drop (Suc k) xs)))"
    by (subst b) (simp add: assms(3))
  ultimately show ?thesis by simp
qed

lemma load_failure_keeps_state:
  "wamr_load_module s b n p l = (c, Inl e, s') \<Longrightarrow> s' = s"
  by (auto simp: wamr_load_module_def split: if_splits option.splits)

lemma load_success_form:
  assumes "wamr_load_module s b n p l = (c, Inr i, s')"
  shows "\<exists>slot. wamr_initialized s \<and> find_free_module (modules s) 0 = Some slot \<and>
     i = next_module_id s \<and>
     s' = s\<lparr>modules := (modules s)[slot :=
                \<lparr>mod_id = next_module_id s, mod_handle = l, mod_in_use = True\<rparr>],
             next_module_id := next_module_id s + 1\<rparr>"
proof (cases "find_free_module (modules s) 0")
  case None
  with assms show ?thesis
    by (simp add: wamr_load_module_def split: if_splits)
next
  case (Some slot)
  with assms show ?thesis
    by (auto simp add: wamr_load_module_def split: if_splits)
qed

lemma load_success:
  assumes "wamr_load_module s b n p l = (c, Inr i, s')"
  shows "wamr_initialized s \<and> wamr_initialized s' \<and> i = next_module_id s \<and>
         next_module_id s' = next_module_id s + 1 \<and>
         next_instance_id s' = next_instance_id s \<and>
         length (modules s') = length (modules s) \<and>
         length (filter mod_in_use (modules s')) = Suc (length (filter mod_in_use (modules s)))"
proof -
  from load_success_form [OF assms] obtain slot where
    init: "wamr_initialized s" and slot: "find_free_module (modules s) 0 = Some slot" and
    s': "s' = s\<lparr>modules := (modules s)[slot :=
                \<lparr>mod_id = next_module_id s, mod_handle = l, mod_in_use = True\<rparr>],
             next_module_id := next_module_id s + 1\<rparr>" and i: "i = next_module_id s"
    by blast
  from find_free_module_Some [OF slot]
  have k: "slot < length (modules s)" and free: "\<not> mod_in_use (modules s ! slot)" by simp_all
  have "length (filter mod_in_use ((modules s)[slot :=
                \<lparr>mod_id = next_module_id s, mod_handle = l, mod_in_use = True\<rparr>]))
        = Suc (length (filter mod_in_use (modules s)))"
    by (rule filter_update_count [where P = mod_in_use, OF k free]) simp
  then show ?thesis
    using init i by (simp add: s')
qed

lemma run_loads:
  "list_all is_load ops \<Longrightarrow> wamr_run s ops = (rets, s') \<Longrightarrow>
     length (modules s') = length (modules s) \<and>
     length (filter mod_in_use (modules s')) =
       length (filter mod_in_use (modules s)) + length (issued_module_ids rets) \<and>
     wamr_initialized s' = wamr_initialized s \<and>
     (issued_module_ids rets \<noteq> [] \<longrightarrow> wamr_initialized s)"
proof (induction ops arbitrary: s rets)
  case Nil
  then show ?case by auto
next
  case (Cons x xs)
  from Cons.prems(1) obtain b n p l where x: "x = Op_load b n p l" and xs: "list_all is_load xs"
    by (cases x) auto
  obtain c r t where step: "wamr_load_module s b n p l = (c, r, t)"
    by (cases "wamr_load_module s b n p l") auto
  obtain rs where run: "wamr_run t xs = (rs, s')" and rets: "rets = Ret_load r # rs"
    using Cons.prems(2) by (auto simp: x step split: prod.splits)
  note ih = Cons.IH [OF xs run]
  show ?case
  proof (cases r)
    case (Inl e)
    with step have "t = s" by (simp add: load_failure_keeps_state)
    with ih show ?thesis by (simp add: rets Inl)
  next
    case (Inr i)
    from load_success [OF step [unfolded Inr]] ih show ?thesis
      by (simp add: rets Inr)
  qed
qed

lemma filter_all_full:
  "length (filter P xs) \<ge> length xs \<Longrightarrow> list_all P xs"
proof (rule ccontr)
  assume len: "length (filter P xs) \<ge> length xs" and "\<not> list_all P xs"
  then obtain x where "x \<in> set xs" "\<not> P x" by (auto simp: list_all_iff)
  then have "length (filter P xs) < length xs" by (rule length_filter_less)
  with len show False by simp
qed

lemma init_ids:
  "wamr_init s ok = (c, r, s') \<Longrightarrow>
     next_module_id s' = next_module_id s \<and> next_instance_id s' = next_instance_id s"
  by (auto simp: wamr_init_def split: if_splits)

lemma cleanup_ids:
  "next_module_id (snd (wamr_cleanup s)) = next_module_id s \<and>
   next_instance_id (snd (wamr_cleanup s)) = next_instance_id s"
  by (simp add: wamr_cleanup_def)

lemma call_state: "out_state (wamr_call_function s i f args ac res rn a) = s"
  by (simp add: wamr_call_function_def Let_def split: prod.splits)

lemma instantiate_failure_keeps_state:
  "wamr_instantiate s m i e = (c, Inl err, s') \<Longrightarrow> s' = s"
  by (auto simp: wamr_instantiate_def Let_def split: if_splits option.splits)

lemma instantiate_success:
  "wamr_instantiate s m i e = (c, Inr k, s') \<Longrightarrow>
     k = next_instance_id s \<and> next_instance_id s' = next_instance_id s + 1 \<and>
     next_module_id s' = next_module_id s"
  by (auto simp: wamr_instantiate_def Let_def split: if_splits option.splits)

lemma run_module_ids:
  "wamr_run s ops = (rets, s') \<Longrightarrow>
     issued_module_ids rets = ids_from (next_module_id s) (length (issued_module_ids rets)) \<and>
     next_module_id s' = next_module_id s + of_nat (length (issued_module_ids rets))"
proof (induction ops arbitrary: s rets)
  case Nil
  then show ?case by auto
next
  case (Cons x xs)
  obtain r t where step: "wamr_step s x = (r, t)" by (cases "wamr_step s x") auto
  obtain rs where run: "wamr_run t xs = (rs, s')" and rets: "rets = r # rs"
    using Cons.prems by (auto simp: step split: prod.splits)
  note ih = Cons.IH [OF run]
  show ?case
  proof (cases "\<exists>i. r = Ret_load (Inr i)")
    case True
    then obtain i where r: "r = Ret_load (Inr i)" by blast
    with step obtain b n p l c where "wamr_load_module s b n p l = (c, Inr i, t)"
      by (cases x) (auto split: prod.splits simp: Let_def)
    from load_success [OF this] have "i = next_module_id s" "next_module_id t = next_module_id s + 1"
      by simp_all
    with ih show ?thesis by (simp add: rets r add.assoc)
  next
    case False
    have skip: "issued_module_ids (r # rs) = issued_module_ids rs"
    proof (cases r)
      case (Ret_load v)
      with False show ?thesis by (cases v) auto
    qed auto
    have "next_module_id t = next_module_id s"
    proof (cases x)
      case (Op_init ok)
      with step show ?thesis by (auto split: prod.splits dest: init_ids)
    next
      case (Op_load b n p l)
      with step False show ?thesis
        by (cases "fst (snd (wamr_load_module s b n p l))")
           (auto split: prod.splits dest: load_failure_keeps_state)
    next
      case (Op_instantiate m i e)
      with step show ?thesis
        by (cases "fst (snd (wamr_instantiate s m i e))")
           (auto split: prod.splits dest: instantiate_failure_keeps_state instantiate_success)
    next
      case (Op_call i f args ac res rn a)
      with step show ?thesis by (auto simp: Let_def call_state)
    next
      case Op_cleanup
      with step show ?thesis by (auto simp: cleanup_ids)
    qed
    with ih skip show ?thesis by (simp add: rets)
  qed
qed

lemma ids_from_lower:
  "x \<in> set (ids_from b n) \<Longrightarrow> unat b + n \<le> 2 ^ 32 \<Longrightarrow> b \<le> x"
proof (induction n arbitrary: b)
  case 0
  then show ?case by simp
next
  case (Suc n)
  show ?case
  proof (cases "x = b")
    case True
    then show ?thesis by simp
  next
    case False
    with Suc.prems have mem: "x \<in> set (ids_from (b + 1) n)" by simp
    then have "n \<noteq> 0" by (cases n) auto
    with Suc.prems(2) have nb: "unat b + 1 < 2 ^ 32" by simp
    then have ub: "unat (b + 1) = unat b + 1"
      by (simp add: unat_word_ariths)
    with Suc.prems(2) have "unat (b + 1) + n \<le> 2 ^ 32" by simp
    from Suc.IH [OF mem this] have "b + 1 \<le> x" .
    moreover have "b \<le> b + 1" using ub by (simp add: word_le_nat_alt)
    ultimately show ?thesis by simp
  qed
qed

lemma ids_from_sorted:
  "unat a + n \<le> 2 ^ 32 \<Longrightarrow> sorted_wrt (<) (ids_from a n)"
proof (induction n arbitrary: a)
  case 0
  then show ?case by simp
next
  case (Suc n)
  show ?case
  proof (cases n)
    case 0
    then show ?thesis by simp
  next
    case (Suc m)
    with Suc.prems have nb: "unat a + 1 < 2 ^ 32" by simp
    then have ub: "unat (a + 1) = unat a + 1"
      by (simp add: unat_word_ariths)
    with Suc.prems have bound: "unat (a + 1) + n \<le> 2 ^ 32" by simp
    have lt: "a < a + 1" using ub by (simp add: word_less_nat_alt)
    have "\<forall>x \<in> set (ids_from (a + 1) n). a < x"
      using ids_from_lower [OF _ bound] lt by fastforce
    with Suc.IH [OF bound] show ?thesis by simp
  qed
qed


lemma run_instance_ids:
  "wamr_run s ops = (rets, s') \<Longrightarrow>
     issued_instance_ids rets =
       ids_from (next_instance_id s) (length (issued_instance_ids rets)) \<and>
     next_instance_id s' = next_instance_id s + of_nat (length (issued_instance_ids rets))"
proof (induction ops arbitrary: s rets)
  case Nil
  then show ?case by auto
next
  case (Cons x xs)
  obtain r t where step: "wamr_step s x = (r, t)" by (cases "wamr_step s x") auto
  obtain rs where run: "wamr_run t xs = (rs, s')" and rets: "rets = r # rs"
    using Cons.prems by (auto simp: step split: prod.splits)
  note ih = Cons.IH [OF run]
  show ?case
  proof (cases "\<exists>i. r = Ret_instantiate (Inr i)")
    case True
    then obtain i where r: "r = Ret_instantiate (Inr i)" by blast
    with step obtain m h e c where "wamr_instantiate s m h e = (c, Inr i, t)"
      by (cases x) (auto split: prod.splits simp: Let_def)
    from instantiate_success [OF this]
    have "i = next_instance_id s" "next_instance_id t = next_instance_id s + 1"
      by simp_all
    with ih show ?thesis by (simp add: rets r add.assoc)
  next
    case False
    have skip: "issued_instance_ids (r # rs) = issued_instance_ids rs"
    proof (cases r)
      case (Ret_instantiate v)
      with False show ?thesis by (cases v) auto
    qed auto
    have "next_instance_id t = next_instance_id s"
    proof (cases x)
      case (Op_init ok)
      with step show ?thesis by (auto split: prod.splits dest: init_ids)
    next
      case (Op_load b n p l)
      with step show ?thesis
        by (cases "fst (snd (wamr_load_module s b n p l))")
           (auto split: prod.splits dest: load_failure_keeps_state load_success)
    next
      case (Op_instantiate m i e)
      with step False show ?thesis
        by (cases "fst (snd (wamr_instantiate s m i e))")
           (auto split: prod.splits dest: instantiate_failure_keeps_state)
    next
      case (Op_call i f args ac res rn a)
      with step show ?thesis by (auto simp: Let_def call_state)
    next
      case Op_cleanup
      with step show ?thesis by (auto simp: cleanup_ids)
    qed
    with ih skip show ?thesis by (simp add: rets)
  qed
qed

lemma ids_from_distinct:
  "unat a + n \<le> 2 ^ 32 \<Longrightarrow> distinct (ids_from a n)"
  using ids_from_sorted [of a n] strict_sorted_iff by blast

lemma wamr_run_append:
  "snd (wamr_run s (xs @ ys)) = snd (wamr_run (snd (wamr_run s xs)) ys)"
  by (induction xs arbitrary: s) (simp_all add: split_beta)

lemma load_cycle_step:
  "snd (wamr_run (fresh_registry a) load_cycle) = fresh_registry (a + 1)"
proof -
  have free: "find_free_module (replicate MAX_MODULES zero_module) 0 = Some 0"
    by (simp add: MAX_MODULES_def zero_module_def numeral_eq_Suc)
  show ?thesis
    by (simp add: load_cycle_def fresh_registry_def wamr_load_module_def wamr_cleanup_def
        wamr_init_def free NULL_def)
qed

lemma load_cycles:
  "snd (wamr_run (fresh_registry a) (concat (replicate k load_cycle))) =
     fresh_registry (a + of_nat k)"
proof (induction k arbitrary: a)
  case 0
  then show ?case by simp
next
  case (Suc k)
  show ?case
    by (simp add: wamr_run_append load_cycle_step Suc.IH add.assoc)
qed

text \<open>
  A module counter at its largest value is reached from the program's start state by
  initialising once and then loading, tearing down and initialising again often enough.
\<close>

lemma full_counter_reachable:
  "snd (wamr_run wamr_boot (Op_init True # concat (replicate 4294967294 load_cycle))) =
     fresh_registry 4294967295"
proof -
  have "snd (wamr_run wamr_boot [Op_init True]) = fresh_registry 1"
    by (simp add: wamr_boot_def wamr_init_def fresh_registry_def)
  then have "snd (wamr_run wamr_boot ([Op_init True] @ concat (replicate 4294967294 load_cycle)))
      = fresh_registry (1 + of_nat 4294967294)"
    by (simp only: wamr_run_append load_cycles)
  then show ?thesis by simp
qed

subsection \<open>Claims\<close>

text \<open>
  Claim C9. While the runtime is not initialised, \<^verbatim>\<open>wamr_load_module\<close>,
  \<^verbatim>\<open>wamr_instantiate\<close> and \<^verbatim>\<open>wamr_call_function\<close> each fail, whatever their arguments
  and whatever the engine would answer. They fail at their first check: no call reaches
  the engine, the registry state is returned as it was, and \<^verbatim>\<open>wamr_call_function\<close>
  leaves the caller's two arrays alone.
\<close>

theorem uninitialized_operations_fail:
  assumes "\<not> wamr_initialized s"
  shows "wamr_load_module s wasm_bytes wasm_size module_id_null loaded =
           ([], Inl Not_Initialized, s)
       \<and> wamr_instantiate s module_id instantiated env_created =
           ([], Inl Not_Initialized, s)
       \<and> wamr_call_function s instance_id function_name args args_count
             results results_count a =
           \<lparr>out_calls = [], out_result = Inl Not_Initialized,
            out_args = args, out_results = results, out_state = s\<rparr>"
  using assms
  by (simp add: wamr_load_module_def wamr_instantiate_def wamr_call_function_def)

theorem uninitialized_operations_fail_witness:
  "\<not> wamr_initialized wamr_boot
   \<and> wamr_load_module wamr_boot (Some [0]) 1 False 7 = ([], Inl Not_Initialized, wamr_boot)
   \<and> wamr_instantiate wamr_boot 1 8 9 = ([], Inl Not_Initialized, wamr_boot)
   \<and> wamr_call_function wamr_boot 1 ''add'' [5, 3] 2 [0] 1
        \<lparr>lookup_answer = 4, call_answer = True, argv_answer = [8, 3],
         exception_answer = None\<rparr> =
       \<lparr>out_calls = [], out_result = Inl Not_Initialized,
        out_args = [5, 3], out_results = [0], out_state = wamr_boot\<rparr>"
proof -
  have h: "\<not> wamr_initialized wamr_boot" by (simp add: wamr_boot_def)
  show ?thesis
    using h uninitialized_operations_fail [OF h] by simp
qed

text \<open>
  Claim C10. A call of \<^verbatim>\<open>wamr_instantiate\<close> that fails returns the registry state it was
  given: no instance slot changes, none is marked in use, and \<^verbatim>\<open>next_instance_id\<close> keeps
  its value. The failure is one of five. When the execution environment cannot be
  created, the engine has been asked, in this order, to instantiate the module, to
  create the environment and to deinstantiate the instance it had just returned. When
  instantiation itself fails there is no instance to release, and the three earlier
  failures (runtime not initialised, unknown module id, no free instance slot) happen
  before any call to the engine.
\<close>

theorem instantiate_atomic_on_failure:
  assumes "wamr_instantiate s module_id instantiated env_created = (calls, Inl e, s')"
  shows "s' = s
       \<and> instances s' = instances s
       \<and> next_instance_id s' = next_instance_id s
       \<and> (if e = Exec_Env_Failed
          then instantiated \<noteq> NULL \<and> env_created = NULL \<and>
               calls = [Wasm_runtime_instantiate (find_module (modules s) module_id)
                          default_stack_size 0,
                        Wasm_runtime_create_exec_env instantiated default_stack_size,
                        Wasm_runtime_deinstantiate instantiated]
          else if e = Instantiate_Failed
          then instantiated = NULL \<and>
               calls = [Wasm_runtime_instantiate (find_module (modules s) module_id)
                          default_stack_size 0]
          else calls = [] \<and>
               (if e = Module_Not_Found then find_module (modules s) module_id = NULL
                else if e = No_Free_Instance_Slots
                  then find_free_instance (instances s) 0 = None
                else e = Not_Initialized \<and> \<not> wamr_initialized s))"
  using assms
  by (auto simp add: wamr_instantiate_def Let_def split: if_splits option.splits)

theorem instantiate_atomic_on_failure_witness:
  "wamr_instantiate (snd (wamr_run wamr_boot [Op_init True, Op_load (Some [0]) 1 False 7]))
       1 8 NULL =
     ([Wasm_runtime_instantiate 7 default_stack_size 0,
       Wasm_runtime_create_exec_env 8 default_stack_size,
       Wasm_runtime_deinstantiate 8],
      Inl Exec_Env_Failed,
      snd (wamr_run wamr_boot [Op_init True, Op_load (Some [0]) 1 False 7]))
   \<and> find_module
        (modules (snd (wamr_run wamr_boot [Op_init True, Op_load (Some [0]) 1 False 7]))) 1 = 7"
proof -
  have h: "wamr_instantiate
       (snd (wamr_run wamr_boot [Op_init True, Op_load (Some [0]) 1 False 7])) 1 8 NULL =
     ([Wasm_runtime_instantiate 7 default_stack_size 0,
       Wasm_runtime_create_exec_env 8 default_stack_size,
       Wasm_runtime_deinstantiate 8],
      Inl Exec_Env_Failed,
      snd (wamr_run wamr_boot [Op_init True, Op_load (Some [0]) 1 False 7]))"
    by code_simp
  show ?thesis
    using h instantiate_atomic_on_failure [OF h] by simp
qed

text \<open>
  Claim C2. Take a registry with \<^verbatim>\<open>MAX_MODULES\<close> module slots and any sequence of
  \<^verbatim>\<open>wamr_load_module\<close> calls of which at least \<^verbatim>\<open>MAX_MODULES\<close> succeed. Then every further
  call fails without reaching the engine and returns the registry state unchanged: all
  module slots with their ids and flags, and both counters. The failure is the one for
  no free module slot, unless the call's own arguments are rejected by the argument
  check that comes before the slot scan (null pointer or size zero), which is reported
  as invalid parameters; the C return value is \<open>-1\<close> in both cases. Also, in any
  state, a call to which the engine answers \<^verbatim>\<open>NULL\<close> fails and returns the state
  unchanged.
\<close>

theorem load_module_exhaustion:
  assumes "length (modules s) = MAX_MODULES"
    and "list_all is_load ops"
    and "MAX_MODULES \<le> length (issued_module_ids (fst (wamr_run s ops)))"
  shows "wamr_load_module (snd (wamr_run s ops)) wasm_bytes wasm_size module_id_null loaded =
           ([], Inl (if wasm_bytes = None \<or> wasm_size = 0 \<or> module_id_null
                     then Invalid_Parameters else No_Free_Module_Slots),
            snd (wamr_run s ops))
       \<and> rc (fst (snd (wamr_load_module (snd (wamr_run s ops))
                        wasm_bytes wasm_size module_id_null loaded))) = -1
       \<and> snd (snd (wamr_load_module t wasm_bytes wasm_size module_id_null NULL)) = t
       \<and> rc (fst (snd (wamr_load_module t wasm_bytes wasm_size module_id_null NULL))) = -1"
proof -
  obtain rets s' where run: "wamr_run s ops = (rets, s')"
    by (cases "wamr_run s ops") auto
  from run_loads [OF assms(2) run] assms(1,3)
  have len: "length (modules s') \<le> length (filter mod_in_use (modules s'))"
    and init: "wamr_initialized s'"
    by (auto simp: run MAX_MODULES_def)
  from filter_all_full [OF len] have "find_free_module (modules s') 0 = None"
    by (simp add: find_free_module_None)
  with init have full:
    "wamr_load_module s' wasm_bytes wasm_size module_id_null loaded =
       ([], Inl (if wasm_bytes = None \<or> wasm_size = 0 \<or> module_id_null
                 then Invalid_Parameters else No_Free_Module_Slots), s')"
    by (simp add: wamr_load_module_def)
  have rejected:
    "snd (snd (wamr_load_module t wasm_bytes wasm_size module_id_null NULL)) = t \<and>
     rc (fst (snd (wamr_load_module t wasm_bytes wasm_size module_id_null NULL))) = -1"
    by (simp add: wamr_load_module_def rc_def split: option.splits)
  from full rejected show ?thesis by (simp add: run rc_def)
qed

theorem load_module_exhaustion_witness:
  "length (modules (fresh_registry 1)) = MAX_MODULES
   \<and> list_all is_load (replicate 16 (Op_load (Some [0]) 1 False 7))
   \<and> MAX_MODULES \<le> length (issued_module_ids
        (fst (wamr_run (fresh_registry 1) (replicate 16 (Op_load (Some [0]) 1 False 7)))))
   \<and> wamr_load_module
        (snd (wamr_run (fresh_registry 1) (replicate 16 (Op_load (Some [0]) 1 False 7))))
        (Some [0]) 1 False 7 =
       ([], Inl No_Free_Module_Slots,
        snd (wamr_run (fresh_registry 1) (replicate 16 (Op_load (Some [0]) 1 False 7))))"
proof -
  have h1: "length (modules (fresh_registry 1)) = MAX_MODULES"
    by (simp add: fresh_registry_def)
  have h2: "list_all is_load (replicate 16 (Op_load (Some [0]) 1 False 7))"
    by code_simp
  have h3: "MAX_MODULES \<le> length (issued_module_ids
        (fst (wamr_run (fresh_registry 1) (replicate 16 (Op_load (Some [0]) 1 False 7)))))"
    by code_simp
  show ?thesis
    using h1 h2 h3 load_module_exhaustion [OF h1 h2 h3, of "Some [0]" 1 False 7] by simp
qed

text \<open>
  Claim C3, as stated: in every sequence of operations, each id returned by a successful
  \<^verbatim>\<open>wamr_load_module\<close> is strictly greater than every id returned before it. The
  counters are 32-bit and \<^verbatim>\<open>next_module_id++\<close> wraps: with the counter at its largest
  value (a state that \<open>full_counter_reachable\<close> reaches from the start state), two
  loads return \<open>4294967295\<close> and then \<open>0\<close>.
\<close>

theorem module_id_wrap_counterexample:
  "issued_module_ids (fst (wamr_run (fresh_registry 4294967295)
      [Op_load (Some [0]) 1 False 7, Op_load (Some [0]) 1 False 7])) = [4294967295, 0]
   \<and> \<not> sorted_wrt (<) (issued_module_ids (fst (wamr_run (fresh_registry 4294967295)
      [Op_load (Some [0]) 1 False 7, Op_load (Some [0]) 1 False 7])))"
  by code_simp

text \<open>
  Claim C3, amended. In every sequence of initialisations, loads, instantiations, calls
  and teardowns, from any state: as long as the module counter does not wrap (its value
  at the start plus the number of successful loads stays within \<open>2^32\<close>), the module ids
  returned are the counter's consecutive values, each strictly greater than all returned
  before it, so none is returned twice; and the same for instance ids and the instance
  counter. This holds also when a teardown has freed the slots in between.
\<close>

theorem ids_strictly_increasing_until_wrap:
  "(unat (next_module_id s) + length (issued_module_ids (fst (wamr_run s ops))) \<le> 2 ^ 32
      \<longrightarrow> sorted_wrt (<) (issued_module_ids (fst (wamr_run s ops)))
        \<and> distinct (issued_module_ids (fst (wamr_run s ops))))
   \<and> (unat (next_instance_id s) + length (issued_instance_ids (fst (wamr_run s ops)))
        \<le> 2 ^ 32
      \<longrightarrow> sorted_wrt (<) (issued_instance_ids (fst (wamr_run s ops)))
        \<and> distinct (issued_instance_ids (fst (wamr_run s ops))))
   \<and> issued_module_ids (fst (wamr_run s ops)) =
       ids_from (next_module_id s) (length (issued_module_ids (fst (wamr_run s ops))))
   \<and> issued_instance_ids (fst (wamr_run s ops)) =
       ids_from (next_instance_id s) (length (issued_instance_ids (fst (wamr_run s ops))))"
proof -
  obtain rets s' where run: "wamr_run s ops = (rets, s')"
    by (cases "wamr_run s ops") auto
  from run_module_ids [OF run]
  have m: "issued_module_ids rets =
      ids_from (next_module_id s) (length (issued_module_ids rets))" by simp
  from run_instance_ids [OF run]
  have i: "issued_instance_ids rets =
      ids_from (next_instance_id s) (length (issued_instance_ids rets))" by simp
  have "unat (next_module_id s) + length (issued_module_ids rets) \<le> 2 ^ 32 \<Longrightarrow>
      sorted_wrt (<) (issued_module_ids rets) \<and> distinct (issued_module_ids rets)"
    using ids_from_sorted [of "next_module_id s" "length (issued_module_ids rets)"]
      ids_from_distinct [of "next_module_id s" "length (issued_module_ids rets)"] m
    by simp
  moreover have
    "unat (next_instance_id s) + length (issued_instance_ids rets) \<le> 2 ^ 32 \<Longrightarrow>
      sorted_wrt (<) (issued_instance_ids rets) \<and> distinct (issued_instance_ids rets)"
    using ids_from_sorted [of "next_instance_id s" "length (issued_instance_ids rets)"]
      ids_from_distinct [of "next_instance_id s" "length (issued_instance_ids rets)"] i
    by simp
  ultimately show ?thesis
    using m i by (simp add: run)
qed

theorem ids_strictly_increasing_until_wrap_witness:
  "unat (next_module_id wamr_boot) +
     length (issued_module_ids (fst (wamr_run wamr_boot redeploy_trace))) \<le> 2 ^ 32
   \<and> unat (next_instance_id wamr_boot) +
     length (issued_instance_ids (fst (wamr_run wamr_boot redeploy_trace))) \<le> 2 ^ 32
   \<and> issued_module_ids (fst (wamr_run wamr_boot redeploy_trace)) = [1, 2]
   \<and> issued_instance_ids (fst (wamr_run wamr_boot redeploy_trace)) = [1, 2]
   \<and> sorted_wrt (<) (issued_module_ids (fst (wamr_run wamr_boot redeploy_trace)))
   \<and> sorted_wrt (<) (issued_instance_ids (fst (wamr_run wamr_boot redeploy_trace)))"
proof -
  have m: "issued_module_ids (fst (wamr_run wamr_boot redeploy_trace)) = [1, 2]"
    by code_simp
  have i: "issued_instance_ids (fst (wamr_run wamr_boot redeploy_trace)) = [1, 2]"
    by code_simp
  have h1: "unat (next_module_id wamr_boot) +
     length (issued_module_ids (fst (wamr_run wamr_boot redeploy_trace))) \<le> 2 ^ 32"
    unfolding m by (simp add: wamr_boot_def)
  have h2: "unat (next_instance_id wamr_boot) +
     length (issued_instance_ids (fst (wamr_run wamr_boot redeploy_trace))) \<le> 2 ^ 32"
    unfolding i by (simp add: wamr_boot_def)
  from ids_strictly_increasing_until_wrap [of wamr_boot redeploy_trace] h1 h2
  have "sorted_wrt (<) (issued_module_ids (fst (wamr_run wamr_boot redeploy_trace)))
      \<and> sorted_wrt (<) (issued_instance_ids (fst (wamr_run wamr_boot redeploy_trace)))"
    by blast
  with h1 h2 m i show ?thesis by simp
qed

section \<open>Properties of the execution path\<close>

text \<open>
  Claim C1 (the code departs from it). \<^verbatim>\<open>wamr_call_function\<close> never writes to the
  \<^verbatim>\<open>results\<close> array it is given: after every call, successful or not, the array holds
  what it held before. On the round trip of the spec (initialise, load, instantiate, call
  \<^verbatim>\<open>add\<close> with arguments 5 and 3 and a one-element result array holding 0, the engine
  computing 8) the call returns success and the result array still holds 0; the 8 is
  only where the engine left it, in the argument array.
\<close>

theorem call_function_leaves_results_untouched:
  "out_results (wamr_call_function s instance_id function_name args args_count
                  results results_count a) = results
   \<and> wamr_call_function deployed_registry 1 ''add'' [5, 3] 2 [0] 1 add_answers =
       \<lparr>out_calls = [Wasm_runtime_lookup_function 8 ''add'',
                     Wasm_runtime_call_wasm 9 4 2 [5, 3]],
        out_result = Inr (), out_args = [8, 3], out_results = [0],
        out_state = deployed_registry\<rparr>"
proof -
  have a: "out_results (wamr_call_function s instance_id function_name args args_count
              results results_count a) = results"
    by (simp add: wamr_call_function_def Let_def split: prod.splits)
  have b: "wamr_call_function deployed_registry 1 ''add'' [5, 3] 2 [0] 1 add_answers =
       \<lparr>out_calls = [Wasm_runtime_lookup_function 8 ''add'',
                     Wasm_runtime_call_wasm 9 4 2 [5, 3]],
        out_result = Inr (), out_args = [8, 3], out_results = [0],
        out_state = deployed_registry\<rparr>"
    by code_simp
  from a b show ?thesis by simp
qed

section \<open>Properties of the transport\<close>

text \<open>
  Claim C5, as stated: \<^verbatim>\<open>network_send\<close> never reports success when fewer than
  \<^verbatim>\<open>data_len\<close> bytes were transmitted. With an open socket, ten bytes to send and a
  socket layer that takes three of them, the function calls \<^verbatim>\<open>zsock_send\<close> once, logs
  the partial send and returns success.
\<close>

theorem partial_send_counterexample:
  "network_send connected_net [1, 2, 3, 4, 5, 6, 7, 8, 9, 10] 10 3 =
     ([Zsock_send 3 [1, 2, 3, 4, 5, 6, 7, 8, 9, 10] 10, Warn_partial_send 3 10], Inr (),
      connected_net)"
  by (simp add: network_send_def connected_net_def)

text \<open>
  Claim C5, amended. On an open socket \<^verbatim>\<open>network_send\<close> hands the whole buffer to the
  socket layer exactly once and leaves the transport state as it was. It reports failure
  exactly when that one write returns a negative value, and success otherwise, whether
  the write took all of the bytes or only some of them.
\<close>

theorem network_send_single_write:
  assumes "0 \<le> socket_fd s"
  shows "snd (snd (network_send s data data_len sent)) = s
     \<and> filter is_send (fst (network_send s data data_len sent)) =
          [Zsock_send (socket_fd s) data data_len]
     \<and> fst (snd (network_send s data data_len sent)) =
          (if sent < 0 then Inl Send_Failed else Inr ())"
  using assms by (simp add: network_send_def)

theorem network_send_single_write_witness:
  "0 \<le> socket_fd connected_net
   \<and> filter is_send (fst (network_send connected_net [1, 2, 3] 3 1)) =
       [Zsock_send 3 [1, 2, 3] 3]
   \<and> fst (snd (network_send connected_net [1, 2, 3] 3 1)) = Inr ()
   \<and> snd (snd (network_send connected_net [1, 2, 3] 3 1)) = connected_net"
proof -
  have h: "0 \<le> socket_fd connected_net" by (simp add: connected_net_def)
  show ?thesis
    using h network_send_single_write [OF h, of "[1, 2, 3]" 3 1]
    by (simp add: connected_net_def)
qed

lemma receive_eagain_branch:
  assumes "0 \<le> socket_fd s"
  shows "((received < 0 \<and> (err = EAGAIN \<or> err = EWOULDBLOCK)) \<or> received = 0 \<longrightarrow>
            network_receive s buffer_len received err =
              ([Zsock_recv (socket_fd s) buffer_len], Inr 0, s))
     \<and> (isl (fst (snd (network_receive s buffer_len received err))) \<longleftrightarrow>
            received < 0 \<and> err \<noteq> EAGAIN \<and> err \<noteq> EWOULDBLOCK)
     \<and> snd (snd (network_receive s buffer_len received err)) = s"
  using assms by (auto simp add: network_receive_def)

text \<open>
  Claim C6 (the code departs from it). \<^verbatim>\<open>network_receive\<close> has the branch the claim
  describes: when the read fails with \<^verbatim>\<open>EAGAIN\<close> or \<^verbatim>\<open>EWOULDBLOCK\<close> it stores 0 and
  returns 0 (\<open>receive_eagain_branch\<close>). But the socket it reads from is in blocking mode
  and the read is made without \<^verbatim>\<open>MSG_DONTWAIT\<close>, so with an open socket and nothing
  pending the read waits and \<^verbatim>\<open>network_receive\<close> does not return. Whenever a call on
  an open socket does return, the connection held bytes, the peer's close or a failure;
  and it returns 0 with 0 bytes only after the peer's close or when the buffer given has
  length 0.
\<close>

theorem receive_blocks_without_data:
  assumes "0 \<le> socket_fd s"
  shows "network_receive_call s buffer_len Nothing_Pending = None
     \<and> (network_receive_call s buffer_len c \<noteq> None \<longrightarrow> c \<noteq> Nothing_Pending)
     \<and> (network_receive_call s buffer_len c = Some (evs, Inr 0, s') \<longrightarrow>
          c = Peer_Closed \<or> (\<exists>bs. c = Bytes_Pending bs \<and> bs \<noteq> [] \<and> buffer_len = 0))"
proof -
  have a: "network_receive_call s buffer_len Nothing_Pending = None"
    using assms by (simp add: network_receive_call_def zsock_recv_def)
  have b: "network_receive_call s buffer_len c \<noteq> None \<Longrightarrow> c \<noteq> Nothing_Pending"
    using a by auto
  have c: "c = Peer_Closed \<or> (\<exists>bs. c = Bytes_Pending bs \<and> bs \<noteq> [] \<and> buffer_len = 0)"
    if r: "network_receive_call s buffer_len c = Some (evs, Inr 0, s')"
  proof (cases c)
    case Nothing_Pending
    with r a show ?thesis by simp
  next
    case (Bytes_Pending bs)
    show ?thesis
    proof (cases "bs = []")
      case True
      with r assms Bytes_Pending show ?thesis
        by (simp add: network_receive_call_def zsock_recv_def)
    next
      case False
      with r assms Bytes_Pending
      have z: "(word_of_nat (min (length bs) (unat buffer_len)) :: u32) = 0"
        by (simp add: network_receive_call_def zsock_recv_def network_receive_def)
      have "unat buffer_len < 2 ^ 32"
        using unsigned_less [of buffer_len, where 'a = nat] by simp
      then have lt: "min (length bs) (unat buffer_len) < 4294967296" by simp
      from z have dv: "4294967296 dvd min (length bs) (unat buffer_len)"
        by (simp add: word_of_nat_eq_0_iff)
      have "min (length bs) (unat buffer_len) = 0"
      proof (rule ccontr)
        assume "min (length bs) (unat buffer_len) \<noteq> 0"
        then have "0 < min (length bs) (unat buffer_len)" by simp
        with dv have "4294967296 \<le> min (length bs) (unat buffer_len)"
          by (rule dvd_imp_le)
        with lt show False by simp
      qed
      with False have "unat buffer_len = 0" by (cases bs) auto
      then have "buffer_len = 0" by (simp add: unat_eq_0)
      with Bytes_Pending False show ?thesis by simp
    qed
  next
    case Peer_Closed
    then show ?thesis by simp
  next
    case (Connection_Failure e)
    with r assms show ?thesis
      by (simp add: network_receive_call_def zsock_recv_def network_receive_def
          split: if_splits)
  qed
  from a b c show ?thesis by blast
qed

theorem receive_blocks_without_data_witness:
  "0 \<le> socket_fd connected_net
   \<and> network_receive_call connected_net 4096 Nothing_Pending = None
   \<and> network_receive_call connected_net 4096 (Bytes_Pending [1, 2, 3, 4, 5]) =
       Some ([Zsock_recv 3 4096], Inr 5, connected_net)
   \<and> network_receive connected_net 4096 (-1) EAGAIN =
       ([Zsock_recv 3 4096], Inr 0, connected_net)"
proof -
  have h: "0 \<le> socket_fd connected_net" by (simp add: connected_net_def)
  have d: "network_receive_call connected_net 4096 (Bytes_Pending [1, 2, 3, 4, 5]) =
       Some ([Zsock_recv 3 4096], Inr 5, connected_net)"
    by (simp add: network_receive_call_def zsock_recv_def network_receive_def
        connected_net_def)
  have e: "network_receive connected_net 4096 (-1) EAGAIN =
       ([Zsock_recv 3 4096], Inr 0, connected_net)"
    by (simp add: network_receive_def connected_net_def)
  show ?thesis
    using h d e receive_blocks_without_data [OF h, of 4096 Nothing_Pending "[]" connected_net]
    by simp
qed

subsection \<open>Connecting and the control loop\<close>

lemma connect_tls_failure_disconnects:
  "network_initialized s \<Longrightarrow> network_connect_tls s host port a = (evs, Inl e, s') \<Longrightarrow>
     socket_fd s' < 0"
  by (auto simp: network_connect_tls_def Let_def split: if_splits)

lemma connect_tls_success_connects:
  "network_connect_tls s host port a = (evs, Inr u, s') \<Longrightarrow>
     0 \<le> socket_fd s' \<and> network_initialized s"
  by (auto simp: network_connect_tls_def Let_def split: if_splits)

lemma poll_iface_found:
  "iface_at k \<noteq> NULL \<Longrightarrow> 0 < n \<Longrightarrow> poll_iface iface_at k n cur = iface_at k"
  by (cases n) auto

lemma parse_default_endpoint:
  "parse_endpoint atoi (Some default_endpoint) 64 = Inr (''127.0.0.1'', 40029)"
  by (simp add: default_endpoint_def parse_endpoint_def c_string_def atoi_def isspace_def
      isdigit_def digit_value_def)

lemma startup_with_default_endpoint:
  "main_startup atoi sys_boot (\<lambda>k. 5) True 0 (\<lambda>k. CHR 0x00) a =
     (case network_connect_tls \<lparr>network_initialized = True, socket_fd = -1, net_iface = 5\<rparr>
             ''127.0.0.1'' 40029 a of
        (evs, r, n) \<Rightarrow>
          Loop_Entered evs
            \<lparr>net = n, wamr = fresh_registry 1,
             protocol = \<lparr>protocol_initialized = True, gateway_endpoint = default_endpoint,
                         gateway_connected = \<not> isl r\<rparr>\<rparr>)"
  by (simp add: main_startup_def sys_boot_def net_boot_def
      network_init_def poll_iface_found wamr_boot_def wamr_init_def fresh_registry_def
      wasmbed_protocol_init_def read_gateway_endpoint_def parse_default_endpoint NULL_def
      Let_def split: prod.splits sum.splits)

lemma after_failed_connect_eq:
  "after_failed_connect =
     \<lparr>net = \<lparr>network_initialized = True, socket_fd = -1, net_iface = 5\<rparr>,
      wamr = fresh_registry 1,
      protocol = \<lparr>protocol_initialized = True, gateway_endpoint = default_endpoint,
                  gateway_connected = False\<rparr>\<rparr>"
  by (simp add: after_failed_connect_def startup_with_default_endpoint
      network_connect_tls_def refused_def)

lemma deployed_eq:
  "deployed =
     \<lparr>net = \<lparr>network_initialized = True, socket_fd = 3, net_iface = 5\<rparr>,
      wamr = deployed_registry,
      protocol = \<lparr>protocol_initialized = True, gateway_endpoint = default_endpoint,
                  gateway_connected = True\<rparr>\<rparr>"
  by (simp add: deployed_def startup_with_default_endpoint
      network_connect_tls_def accepted_def)

lemma pass_disconnected:
  assumes "socket_fd (net s) < 0"
  shows "snd (main_loop_pass s t) = s \<and>
         list_all (\<lambda>e. e = Warn_interface_down) (fst (main_loop_pass s t))"
  using assms by (simp add: main_loop_pass_def network_receive_def network_process_def)

text \<open>
  Claim C7 (the code departs from it). A connect that fails leaves the transport without
  a socket (\<open>connect_tls_failure_disconnects\<close>), and a later successful call would open
  one (\<open>connect_tls_success_connects\<close>); but nothing makes that later call. Once the
  transport has no socket, every pass of the control loop returns the state of the whole
  system as it found it and makes no call to the socket layer: over any number of
  passes, whatever the environment answers, the only events are warnings that the
  interface is down. After a start-up whose connect to the gateway was refused the
  transport stays disconnected for good.
\<close>

theorem control_loop_never_reconnects:
  assumes "socket_fd (net s) < 0"
  shows "snd (main_loop s ts) = s
     \<and> list_all (\<lambda>e. e = Warn_interface_down) (fst (main_loop s ts))"
  using assms
proof (induction ts)
  case Nil
  then show ?case by simp
next
  case (Cons t ts)
  from pass_disconnected [OF Cons.prems, of t] Cons.IH [OF Cons.prems]
  show ?case by (simp add: split_beta)
qed

theorem control_loop_never_reconnects_witness:
  "socket_fd (net after_failed_connect) < 0
   \<and> \<not> gateway_connected (protocol after_failed_connect)
   \<and> snd (main_loop after_failed_connect [idle_tick, idle_tick, idle_tick]) =
       after_failed_connect
   \<and> fst (main_loop after_failed_connect [idle_tick, idle_tick, idle_tick]) = []"
proof -
  have h: "socket_fd (net after_failed_connect) < 0"
    by (simp add: after_failed_connect_eq)
  have e: "fst (main_loop after_failed_connect [idle_tick, idle_tick, idle_tick]) = []"
    by (simp add: after_failed_connect_eq main_loop_pass_def network_process_def
        network_receive_def idle_tick_def)
  have g: "\<not> gateway_connected (protocol after_failed_connect)"
    by (simp add: after_failed_connect_eq)
  show ?thesis
    using h e g control_loop_never_reconnects [OF h, of "[idle_tick, idle_tick, idle_tick]"]
    by simp
qed

section \<open>Properties of the protocol handler\<close>

text \<open>
  Claim C4, as stated: a frame whose length field exceeds the maximum message size is
  rejected. The handler does not read a length field. Given a five-byte message whose
  first four bytes declare 4294967295 bytes, it logs the five bytes and returns 0.
\<close>

theorem oversized_frame_counterexample:
  "spec_max_message_size < spec_declared_length oversized_frame
   \<and> wasmbed_protocol_handle_message deployed (Some oversized_frame) 5 =
       (oversized_frame, 0, deployed)"
  by (simp add: spec_max_message_size_def spec_declared_length_def oversized_frame_def
      wasmbed_protocol_handle_message_def deployed_eq)

text \<open>
  Claim C4, amended. The handler accepts every message, whatever length its first four
  bytes declare: once the protocol is initialised it returns 0 for any message that is
  not null and not empty, and \<open>-1\<close> otherwise. In every case it reads at most the first
  32 bytes of the message (to log them) and returns the state of the whole system, the
  module and instance registry included, as it was.
\<close>

theorem handle_message_accepts_every_frame:
  "snd (snd (wasmbed_protocol_handle_message s data data_len)) = s
   \<and> wamr (snd (snd (wasmbed_protocol_handle_message s data data_len))) = wamr s
   \<and> fst (snd (wasmbed_protocol_handle_message s data data_len)) =
       (if protocol_initialized (protocol s) \<and> data \<noteq> None \<and> data_len \<noteq> 0 then 0 else -1)
   \<and> length (fst (wasmbed_protocol_handle_message s data data_len)) \<le> 32"
  by (auto simp add: wasmbed_protocol_handle_message_def)

subsection \<open>Parsing the endpoint\<close>










end
